theory Spec2Isabelle
  imports Complex_Main "HOL-Library.Sublist" "HOL-Library.Word"
begin

section \<open>The options dictionary and the errors of construction\<close>

text \<open>
  \<^verbatim>\<open>Options::Options(py::dict options)\<close> (Options.cpp) reads 27 entries of a Python
  dictionary in its member initialiser list, each as
  \<^verbatim>\<open>options["key"].cast<T>()\<close>, and then validates the combination of the three
  string options in its body.

  A dictionary is a map from keys to Python objects. An object is represented by the C++
  value that the conversion at its key gives: \<^verbatim>\<open>bool\<close>, \<^verbatim>\<open>int\<close> (32 bits),
  \<^verbatim>\<open>double\<close>, \<^verbatim>\<open>sunbooleantype\<close> or \<^verbatim>\<open>std::string\<close>; an object
  that does not convert to the type its key is read at (a string where an
  \<^verbatim>\<open>int\<close> is read, a Python integer outside the range of \<^verbatim>\<open>int\<close>) is
  an object of another type here, and its cast fails.
  The constructor only stores doubles and \<^verbatim>\<open>sunbooleantype\<close> values and never
  computes with them, and the declaration of \<^verbatim>\<open>sunbooleantype\<close> is outside these
  sources, so both are type parameters (\<open>'d\<close> and \<open>'b\<close>).
\<close>

type_synonym c_int = "32 word"

datatype ('d, 'b) py_object =
    PyBool bool
  | PyInt c_int
  | PyFloat 'd
  | PySunBool 'b
  | PyStr string

type_synonym ('d, 'b) py_dict = "string \<rightharpoonup> ('d, 'b) py_object"

text \<open>
  Three exceptions can leave the constructor: \<^verbatim>\<open>options["key"]\<close> on a missing key
  (the Python \<^verbatim>\<open>KeyError\<close>, carrying the key), a failed \<^verbatim>\<open>cast<T>()\<close>, and the
  \<^verbatim>\<open>std::domain_error\<close> the body throws, carrying the \<^verbatim>\<open>std::string\<close> the body
  builds for it.
\<close>

datatype error = KeyError string | CastError string | DomainError string

fun is_DomainError :: "error \<Rightarrow> bool" where
  "is_DomainError (DomainError m) = True"
| "is_DomainError _ = False"

text \<open>
  A caller reads the message of a \<^verbatim>\<open>std::domain_error\<close> through \<^verbatim>\<open>what()\<close>, a
  C string: the text ends at the first NUL character of the string the exception was
  built from. A \<^verbatim>\<open>std::string\<close> read from a Python \<^verbatim>\<open>str\<close> may hold one.
\<close>

definition domain_error_what :: "string \<Rightarrow> string" where
  "domain_error_what m = takeWhile (\<lambda>c. c \<noteq> CHR 0x00) m"

definition bind_result :: "error + 'a \<Rightarrow> ('a \<Rightarrow> error + 'c) \<Rightarrow> error + 'c" where
  "bind_result r f = (case r of Inl e \<Rightarrow> Inl e | Inr x \<Rightarrow> f x)"

text \<open>\<^verbatim>\<open>options[k].cast<T>()\<close>, one function for each \<open>T\<close> the constructor asks for.\<close>

definition cast_bool :: "('d, 'b) py_dict \<Rightarrow> string \<Rightarrow> error + bool" where
  "cast_bool options k =
     (case options k of
        None \<Rightarrow> Inl (KeyError k)
      | Some (PyBool v) \<Rightarrow> Inr v
      | Some _ \<Rightarrow> Inl (CastError k))"

definition cast_int :: "('d, 'b) py_dict \<Rightarrow> string \<Rightarrow> error + c_int" where
  "cast_int options k =
     (case options k of
        None \<Rightarrow> Inl (KeyError k)
      | Some (PyInt v) \<Rightarrow> Inr v
      | Some _ \<Rightarrow> Inl (CastError k))"

definition cast_double :: "('d, 'b) py_dict \<Rightarrow> string \<Rightarrow> error + 'd" where
  "cast_double options k =
     (case options k of
        None \<Rightarrow> Inl (KeyError k)
      | Some (PyFloat v) \<Rightarrow> Inr v
      | Some _ \<Rightarrow> Inl (CastError k))"

definition cast_sunbooleantype :: "('d, 'b) py_dict \<Rightarrow> string \<Rightarrow> error + 'b" where
  "cast_sunbooleantype options k =
     (case options k of
        None \<Rightarrow> Inl (KeyError k)
      | Some (PySunBool v) \<Rightarrow> Inr v
      | Some _ \<Rightarrow> Inl (CastError k))"

definition cast_string :: "('d, 'b) py_dict \<Rightarrow> string \<Rightarrow> error + string" where
  "cast_string options k =
     (case options k of
        None \<Rightarrow> Inl (KeyError k)
      | Some (PyStr v) \<Rightarrow> Inr v
      | Some _ \<Rightarrow> Inl (CastError k))"

section \<open>The Options object\<close>

text \<open>
  The members the constructor initialises from the dictionary, in the order of its
  initialiser list, and the three flags its body assigns.
\<close>

record ('d, 'b) Options =
  print_stats :: bool
  jacobian :: string
  preconditioner :: string
  precon_half_bandwidth :: c_int
  precon_half_bandwidth_keep :: c_int
  num_threads :: c_int
  max_order_bdf :: c_int
  max_num_steps :: c_int
  dt_init :: 'd
  dt_max :: 'd
  max_error_test_failures :: c_int
  max_nonlinear_iterations :: c_int
  max_convergence_failures :: c_int
  nonlinear_convergence_coefficient :: 'd
  nonlinear_convergence_coefficient_ic :: 'd
  suppress_algebraic_error :: 'b
  max_num_steps_ic :: c_int
  max_number_jacobians_ic :: c_int
  max_number_iterations_ic :: c_int
  max_linesearch_backtracks_ic :: c_int
  linesearch_off_ic :: 'b
  calc_ic :: bool
  linear_solver :: string
  linsol_max_iterations :: c_int
  linear_solution_scaling :: 'b
  epsilon_linear_tolerance :: 'd
  increment_factor :: 'd
  using_sparse_matrix :: bool
  using_banded_matrix :: bool
  using_iterative_solver :: bool

text \<open>
  The member initialiser list (Options.cpp, lines 9 to 38). The first read that throws ends
  the construction. C++ runs the initialisers in the order in which Options.hpp declares
  the members; the header is outside these sources, so the reads follow the order of the
  list. The order only decides which of several failing reads is reported, and nothing
  below depends on it. The three flags are not initialised here; the body assigns each of
  them before it can return, so the value they hold in between (\<open>False\<close> below) is never
  observed.
\<close>

definition read_options :: "('d, 'b) py_dict \<Rightarrow> error + ('d, 'b) Options" where
  "read_options options =
     bind_result (cast_bool options ''print_stats'') (\<lambda>v1.
     bind_result (cast_string options ''jacobian'') (\<lambda>v2.
     bind_result (cast_string options ''preconditioner'') (\<lambda>v3.
     bind_result (cast_int options ''precon_half_bandwidth'') (\<lambda>v4.
     bind_result (cast_int options ''precon_half_bandwidth_keep'') (\<lambda>v5.
     bind_result (cast_int options ''num_threads'') (\<lambda>v6.
     bind_result (cast_int options ''max_order_bdf'') (\<lambda>v7.
     bind_result (cast_int options ''max_num_steps'') (\<lambda>v8.
     bind_result (cast_double options ''dt_init'') (\<lambda>v9.
     bind_result (cast_double options ''dt_max'') (\<lambda>v10.
     bind_result (cast_int options ''max_error_test_failures'') (\<lambda>v11.
     bind_result (cast_int options ''max_nonlinear_iterations'') (\<lambda>v12.
     bind_result (cast_int options ''max_convergence_failures'') (\<lambda>v13.
     bind_result (cast_double options ''nonlinear_convergence_coefficient'') (\<lambda>v14.
     bind_result (cast_double options ''nonlinear_convergence_coefficient_ic'') (\<lambda>v15.
     bind_result (cast_sunbooleantype options ''suppress_algebraic_error'') (\<lambda>v16.
     bind_result (cast_int options ''max_num_steps_ic'') (\<lambda>v17.
     bind_result (cast_int options ''max_number_jacobians_ic'') (\<lambda>v18.
     bind_result (cast_int options ''max_number_iterations_ic'') (\<lambda>v19.
     bind_result (cast_int options ''max_linesearch_backtracks_ic'') (\<lambda>v20.
     bind_result (cast_sunbooleantype options ''linesearch_off_ic'') (\<lambda>v21.
     bind_result (cast_bool options ''calc_ic'') (\<lambda>v22.
     bind_result (cast_string options ''linear_solver'') (\<lambda>v23.
     bind_result (cast_int options ''linsol_max_iterations'') (\<lambda>v24.
     bind_result (cast_sunbooleantype options ''linear_solution_scaling'') (\<lambda>v25.
     bind_result (cast_double options ''epsilon_linear_tolerance'') (\<lambda>v26.
     bind_result (cast_double options ''increment_factor'') (\<lambda>v27.
     Inr \<lparr> print_stats = v1, jacobian = v2, preconditioner = v3,
           precon_half_bandwidth = v4, precon_half_bandwidth_keep = v5,
           num_threads = v6, max_order_bdf = v7, max_num_steps = v8,
           dt_init = v9, dt_max = v10, max_error_test_failures = v11,
           max_nonlinear_iterations = v12, max_convergence_failures = v13,
           nonlinear_convergence_coefficient = v14,
           nonlinear_convergence_coefficient_ic = v15,
           suppress_algebraic_error = v16, max_num_steps_ic = v17,
           max_number_jacobians_ic = v18, max_number_iterations_ic = v19,
           max_linesearch_backtracks_ic = v20, linesearch_off_ic = v21,
           calc_ic = v22, linear_solver = v23, linsol_max_iterations = v24,
           linear_solution_scaling = v25, epsilon_linear_tolerance = v26,
           increment_factor = v27,
           using_sparse_matrix = False, using_banded_matrix = False,
           using_iterative_solver = False \<rparr>)))))))))))))))))))))))))))"

section \<open>The body of the constructor\<close>

text \<open>Lines 41 to 63: the matrix flags, and the rejection of an unknown jacobian.\<close>

definition unknown_jacobian_message :: "string \<Rightarrow> string" where
  "unknown_jacobian_message j =
     ''Unknown jacobian type \"'' @ j @
     ''\". Should be one of \"sparse\", \"banded\", \"dense\", \"matrix-free\" or \"none\".''"

definition jacobian_flags :: "('d, 'b) Options \<Rightarrow> error + ('d, 'b) Options" where
  "jacobian_flags this0 =
     (let this = this0\<lparr>using_sparse_matrix := True, using_banded_matrix := False\<rparr> in
      if jacobian this = ''sparse'' then Inr this
      else if jacobian this = ''banded'' then
        Inr (this\<lparr>using_banded_matrix := True, using_sparse_matrix := False\<rparr>)
      else if jacobian this = ''dense'' \<or> jacobian this = ''none'' then
        Inr (this\<lparr>using_sparse_matrix := False\<rparr>)
      else if jacobian this = ''matrix-free'' then Inr this
      else Inl (DomainError (unknown_jacobian_message (jacobian this))))"

text \<open>
  Lines 65 to 127: the linear solver against the jacobian. The five messages start alike,
  up to the separator after "options" (a colon in three of them, a full stop in two).
\<close>

definition incompatible_prefix :: "string \<Rightarrow> string \<Rightarrow> string \<Rightarrow> string" where
  "incompatible_prefix sep j l =
     ''Unknown linear solver or incompatible options'' @ sep @
     ''jacobian = \"'' @ j @ ''\" linear solver = \"'' @ l"

definition banded_message :: "string \<Rightarrow> string \<Rightarrow> string" where
  "banded_message j l =
     incompatible_prefix '': '' j l @
     ''\". For a banded jacobian please use the SUNLinSol_Band linear solver''"

definition sparse_message :: "string \<Rightarrow> string \<Rightarrow> string" where
  "sparse_message j l =
     incompatible_prefix '': '' j l @
     ''\". For a sparse jacobian please use the SUNLinSol_KLU linear solver''"

definition matrix_free_message :: "string \<Rightarrow> string \<Rightarrow> string" where
  "matrix_free_message j l =
     incompatible_prefix ''. '' j l @
     ''\". For a matrix-free jacobian please use one of the iterative linear solvers: \"SUNLinSol_SPBCGS\", \"SUNLinSol_SPFGMR\", \"SUNLinSol_SPGMR\", or \"SUNLinSol_SPTFQMR\".''"

definition none_message :: "string \<Rightarrow> string \<Rightarrow> string" where
  "none_message j l =
     incompatible_prefix '': '' j l @
     ''\". For no jacobian please use the SUNLinSol_Dense solver''"

definition other_message :: "string \<Rightarrow> string \<Rightarrow> string" where
  "other_message j l = incompatible_prefix ''. '' j l @ ''\"''"

definition linear_solver_check :: "('d, 'b) Options \<Rightarrow> error + ('d, 'b) Options" where
  "linear_solver_check this0 =
     (let this = this0\<lparr>using_iterative_solver := False\<rparr>;
          j = jacobian this; l = linear_solver this in
      if l = ''SUNLinSol_Dense'' \<and> (j = ''dense'' \<or> j = ''none'') then Inr this
      else if l = ''SUNLinSol_KLU'' \<and> j = ''sparse'' then Inr this
      else if l = ''SUNLinSol_cuSolverSp_batchQR'' \<and> j = ''sparse'' then Inr this
      else if l = ''SUNLinSol_Band'' \<and> j = ''banded'' then Inr this
      else if j = ''banded'' then Inl (DomainError (banded_message j l))
      else if (l = ''SUNLinSol_SPBCGS'' \<or> l = ''SUNLinSol_SPFGMR'' \<or>
               l = ''SUNLinSol_SPGMR'' \<or> l = ''SUNLinSol_SPTFQMR'') \<and>
              (j = ''sparse'' \<or> j = ''matrix-free'') then
        Inr (this\<lparr>using_iterative_solver := True\<rparr>)
      else if j = ''sparse'' then Inl (DomainError (sparse_message j l))
      else if j = ''matrix-free'' then Inl (DomainError (matrix_free_message j l))
      else if j = ''none'' then Inl (DomainError (none_message j l))
      else Inl (DomainError (other_message j l)))"

text \<open>Lines 129 to 142: the preconditioner.\<close>

definition unknown_preconditioner_message :: "string \<Rightarrow> string" where
  "unknown_preconditioner_message p =
     ''Unknown preconditioner \"'' @ p @ ''\", use one of \"BBDP\" or \"none\"''"

definition preconditioner_check :: "('d, 'b) Options \<Rightarrow> error + ('d, 'b) Options" where
  "preconditioner_check this =
     (if using_iterative_solver this then
        (if preconditioner this \<noteq> ''none'' \<and> preconditioner this \<noteq> ''BBDP'' then
           Inl (DomainError (unknown_preconditioner_message (preconditioner this)))
         else Inr this)
      else Inr (this\<lparr>preconditioner := ''none''\<rparr>))"

definition Options_body :: "('d, 'b) Options \<Rightarrow> error + ('d, 'b) Options" where
  "Options_body this =
     bind_result (jacobian_flags this) (\<lambda>this.
     bind_result (linear_solver_check this) preconditioner_check)"

text \<open>The constructor: member initialisers, then the body.\<close>

definition Options_ctor :: "('d, 'b) py_dict \<Rightarrow> error + ('d, 'b) Options" where
  "Options_ctor options = bind_result (read_options options) Options_body"

section \<open>The documented configuration surface\<close>

text \<open>
  The value sets and the compatibility matrix as the specification words them; the
  theorems below compare the constructor with them.
\<close>

definition accepted_jacobians :: "string set" where
  "accepted_jacobians = {''sparse'', ''banded'', ''dense'', ''none'', ''matrix-free''}"

definition krylov_solvers :: "string set" where
  "krylov_solvers =
     {''SUNLinSol_SPBCGS'', ''SUNLinSol_SPFGMR'', ''SUNLinSol_SPGMR'', ''SUNLinSol_SPTFQMR''}"

definition compatibility_matrix :: "(string \<times> string) set" where
  "compatibility_matrix =
     {(''dense'', ''SUNLinSol_Dense''), (''none'', ''SUNLinSol_Dense''),
      (''sparse'', ''SUNLinSol_KLU''), (''sparse'', ''SUNLinSol_cuSolverSp_batchQR''),
      (''banded'', ''SUNLinSol_Band'')} \<union>
     {''sparse'', ''matrix-free''} \<times> krylov_solvers"

definition accepted_preconditioners :: "string set" where
  "accepted_preconditioners = {''none'', ''BBDP''}"

text \<open>
  A message names the jacobian \<open>j\<close> and the linear solver \<open>l\<close> when it contains
  \<^verbatim>\<open>jacobian = "j" linear solver = "l"\<close>.
\<close>

definition names_both :: "string \<Rightarrow> string \<Rightarrow> string \<Rightarrow> bool" where
  "names_both j l m \<longleftrightarrow>
     sublist (''jacobian = \"'' @ j @ ''\" linear solver = \"'' @ l @ ''\"'') m"

text \<open>
  A message names the jacobian \<open>j\<close> and the linear solver \<open>l\<close> as far as its first NUL
  character when it contains \<^verbatim>\<open>jacobian = "j" linear solver = "\<close> followed by the
  characters of \<open>l\<close> before that NUL (all of \<open>l\<close> when it holds none).
\<close>

definition names_jacobian_and_solver_prefix :: "string \<Rightarrow> string \<Rightarrow> string \<Rightarrow> bool" where
  "names_jacobian_and_solver_prefix j l m \<longleftrightarrow>
     sublist (''jacobian = \"'' @ j @ ''\" linear solver = \"'' @ domain_error_what l) m"

text \<open>
  The numeric and boolean options by the type their read asks for: a value fits the
  option \<open>k\<close> when it converts to the type of \<open>k\<close>'s member.
\<close>

definition bool_options :: "string set" where
  "bool_options = {''print_stats'', ''calc_ic''}"

definition int_options :: "string set" where
  "int_options =
     {''precon_half_bandwidth'', ''precon_half_bandwidth_keep'', ''num_threads'',
      ''max_order_bdf'', ''max_num_steps'', ''max_error_test_failures'',
      ''max_nonlinear_iterations'', ''max_convergence_failures'', ''max_num_steps_ic'',
      ''max_number_jacobians_ic'', ''max_number_iterations_ic'',
      ''max_linesearch_backtracks_ic'', ''linsol_max_iterations''}"

definition double_options :: "string set" where
  "double_options =
     {''dt_init'', ''dt_max'', ''nonlinear_convergence_coefficient'',
      ''nonlinear_convergence_coefficient_ic'', ''epsilon_linear_tolerance'',
      ''increment_factor''}"

definition sunbooleantype_options :: "string set" where
  "sunbooleantype_options =
     {''suppress_algebraic_error'', ''linesearch_off_ic'', ''linear_solution_scaling''}"

fun numeric_option_value :: "string \<Rightarrow> ('d, 'b) py_object \<Rightarrow> bool" where
  "numeric_option_value k (PyBool v) = (k \<in> bool_options)"
| "numeric_option_value k (PyInt v) = (k \<in> int_options)"
| "numeric_option_value k (PyFloat v) = (k \<in> double_options)"
| "numeric_option_value k (PySunBool v) = (k \<in> sunbooleantype_options)"
| "numeric_option_value k (PyStr v) = False"

section \<open>Example dictionaries\<close>

text \<open>
  A complete dictionary with the given jacobian, linear solver and preconditioner, and
  the members the initialiser list reads from it. For the examples, doubles are
  real numbers and \<^verbatim>\<open>sunbooleantype\<close> is \<^verbatim>\<open>int\<close>.
\<close>

definition options_with :: "string \<Rightarrow> string \<Rightarrow> string \<Rightarrow> (real, c_int) py_dict" where
  "options_with j l p = map_of
     [(''print_stats'', PyBool False),
      (''jacobian'', PyStr j),
      (''preconditioner'', PyStr p),
      (''precon_half_bandwidth'', PyInt 5),
      (''precon_half_bandwidth_keep'', PyInt 5),
      (''num_threads'', PyInt 1),
      (''max_order_bdf'', PyInt 5),
      (''max_num_steps'', PyInt 100000),
      (''dt_init'', PyFloat 0),
      (''dt_max'', PyFloat 0),
      (''max_error_test_failures'', PyInt 10),
      (''max_nonlinear_iterations'', PyInt 40),
      (''max_convergence_failures'', PyInt 100),
      (''nonlinear_convergence_coefficient'', PyFloat (1 / 3)),
      (''nonlinear_convergence_coefficient_ic'', PyFloat (1 / 300)),
      (''suppress_algebraic_error'', PySunBool 0),
      (''max_num_steps_ic'', PyInt 5),
      (''max_number_jacobians_ic'', PyInt 4),
      (''max_number_iterations_ic'', PyInt 10),
      (''max_linesearch_backtracks_ic'', PyInt 100),
      (''linesearch_off_ic'', PySunBool 0),
      (''calc_ic'', PyBool True),
      (''linear_solver'', PyStr l),
      (''linsol_max_iterations'', PyInt 5),
      (''linear_solution_scaling'', PySunBool 1),
      (''epsilon_linear_tolerance'', PyFloat (1 / 20)),
      (''increment_factor'', PyFloat 1)]"

definition members_with :: "string \<Rightarrow> string \<Rightarrow> string \<Rightarrow> (real, c_int) Options" where
  "members_with j l p =
     \<lparr> print_stats = False, jacobian = j, preconditioner = p,
       precon_half_bandwidth = 5, precon_half_bandwidth_keep = 5,
       num_threads = 1, max_order_bdf = 5, max_num_steps = 100000,
       dt_init = 0, dt_max = 0, max_error_test_failures = 10,
       max_nonlinear_iterations = 40, max_convergence_failures = 100,
       nonlinear_convergence_coefficient = 1 / 3,
       nonlinear_convergence_coefficient_ic = 1 / 300,
       suppress_algebraic_error = 0, max_num_steps_ic = 5,
       max_number_jacobians_ic = 4, max_number_iterations_ic = 10,
       max_linesearch_backtracks_ic = 100, linesearch_off_ic = 0,
       calc_ic = True, linear_solver = l, linsol_max_iterations = 5,
       linear_solution_scaling = 1, epsilon_linear_tolerance = 1 / 20,
       increment_factor = 1,
       using_sparse_matrix = False, using_banded_matrix = False,
       using_iterative_solver = False \<rparr>"

text \<open>A dictionary that holds the three string options and nothing else.\<close>

definition strings_only :: "(real, c_int) py_dict" where
  "strings_only = map_of
     [(''jacobian'', PyStr ''dense''),
      (''linear_solver'', PyStr ''SUNLinSol_Dense''),
      (''preconditioner'', PyStr ''none'')]"

text \<open>The same with a pair that is outside the compatibility matrix.\<close>

definition incompatible_strings_only :: "(real, c_int) py_dict" where
  "incompatible_strings_only = map_of
     [(''jacobian'', PyStr ''dense''),
      (''linear_solver'', PyStr ''SUNLinSol_KLU''),
      (''preconditioner'', PyStr ''none'')]"

section \<open>Results and reads\<close>

lemma bind_result_Inr_iff:
  "bind_result m f = Inr y \<longleftrightarrow> (\<exists>x. m = Inr x \<and> f x = Inr y)"
  by (cases m) (simp_all add: bind_result_def)

lemma bind_result_simps:
  "bind_result (Inr x) f = f x" "bind_result (Inl e) f = Inl e"
  by (simp_all add: bind_result_def)

lemma cast_Inr_iff:
  "cast_bool d k = Inr vb \<longleftrightarrow> d k = Some (PyBool vb)"
  "cast_int d k = Inr vi \<longleftrightarrow> d k = Some (PyInt vi)"
  "cast_double d k = Inr vd \<longleftrightarrow> d k = Some (PyFloat vd)"
  "cast_sunbooleantype d k = Inr vs \<longleftrightarrow> d k = Some (PySunBool vs)"
  "cast_string d k = Inr vt \<longleftrightarrow> d k = Some (PyStr vt)"
  by (auto simp: cast_bool_def cast_int_def cast_double_def cast_sunbooleantype_def
      cast_string_def split: option.splits py_object.splits)

lemma cast_Some:
  "d k = Some (PyBool vb) \<Longrightarrow> cast_bool d k = Inr vb"
  "d k = Some (PyInt vi) \<Longrightarrow> cast_int d k = Inr vi"
  "d k = Some (PyFloat vd) \<Longrightarrow> cast_double d k = Inr vd"
  "d k = Some (PySunBool vs) \<Longrightarrow> cast_sunbooleantype d k = Inr vs"
  "d k = Some (PyStr vt) \<Longrightarrow> cast_string d k = Inr vt"
  by (simp_all add: cast_Inr_iff)

text \<open>What a completed initialiser list says about the dictionary.\<close>

lemma read_options_Inr_D:
  assumes "read_options d = Inr r"
  shows "d ''print_stats'' = Some (PyBool (print_stats r)) \<and>
    d ''jacobian'' = Some (PyStr (jacobian r)) \<and>
    d ''preconditioner'' = Some (PyStr (preconditioner r)) \<and>
    d ''precon_half_bandwidth'' = Some (PyInt (precon_half_bandwidth r)) \<and>
    d ''precon_half_bandwidth_keep'' = Some (PyInt (precon_half_bandwidth_keep r)) \<and>
    d ''num_threads'' = Some (PyInt (num_threads r)) \<and>
    d ''max_order_bdf'' = Some (PyInt (max_order_bdf r)) \<and>
    d ''max_num_steps'' = Some (PyInt (max_num_steps r)) \<and>
    d ''dt_init'' = Some (PyFloat (dt_init r)) \<and>
    d ''dt_max'' = Some (PyFloat (dt_max r)) \<and>
    d ''max_error_test_failures'' = Some (PyInt (max_error_test_failures r)) \<and>
    d ''max_nonlinear_iterations'' = Some (PyInt (max_nonlinear_iterations r)) \<and>
    d ''max_convergence_failures'' = Some (PyInt (max_convergence_failures r)) \<and>
    d ''nonlinear_convergence_coefficient'' =
      Some (PyFloat (nonlinear_convergence_coefficient r)) \<and>
    d ''nonlinear_convergence_coefficient_ic'' =
      Some (PyFloat (nonlinear_convergence_coefficient_ic r)) \<and>
    d ''suppress_algebraic_error'' = Some (PySunBool (suppress_algebraic_error r)) \<and>
    d ''max_num_steps_ic'' = Some (PyInt (max_num_steps_ic r)) \<and>
    d ''max_number_jacobians_ic'' = Some (PyInt (max_number_jacobians_ic r)) \<and>
    d ''max_number_iterations_ic'' = Some (PyInt (max_number_iterations_ic r)) \<and>
    d ''max_linesearch_backtracks_ic'' = Some (PyInt (max_linesearch_backtracks_ic r)) \<and>
    d ''linesearch_off_ic'' = Some (PySunBool (linesearch_off_ic r)) \<and>
    d ''calc_ic'' = Some (PyBool (calc_ic r)) \<and>
    d ''linear_solver'' = Some (PyStr (linear_solver r)) \<and>
    d ''linsol_max_iterations'' = Some (PyInt (linsol_max_iterations r)) \<and>
    d ''linear_solution_scaling'' = Some (PySunBool (linear_solution_scaling r)) \<and>
    d ''epsilon_linear_tolerance'' = Some (PyFloat (epsilon_linear_tolerance r)) \<and>
    d ''increment_factor'' = Some (PyFloat (increment_factor r))"
  using assms unfolding read_options_def bind_result_Inr_iff cast_Inr_iff
  by clarsimp

lemma read_options_strings:
  assumes "read_options d = Inr r"
  shows "d ''jacobian'' = Some (PyStr (jacobian r))"
    and "d ''linear_solver'' = Some (PyStr (linear_solver r))"
    and "d ''preconditioner'' = Some (PyStr (preconditioner r))"
  using read_options_Inr_D [OF assms] by simp_all

text \<open>
  Overwriting a numeric or boolean option with a value of its type keeps the
  initialiser list from throwing, and leaves the three string members as they were.
\<close>

lemma read_options_update:
  assumes "read_options d = Inr r" and "numeric_option_value k v"
  shows "\<exists>r'. read_options (d(k \<mapsto> v)) = Inr r' \<and> jacobian r' = jacobian r \<and>
    linear_solver r' = linear_solver r \<and> preconditioner r' = preconditioner r"
proof -
  note D = read_options_Inr_D [OF assms(1)]
  show ?thesis
  proof (cases v)
    case (PyBool x)
    with assms(2) have "k \<in> bool_options" by simp
    then show ?thesis using D PyBool unfolding bool_options_def
      by (auto simp: read_options_def cast_Some bind_result_simps)
  next
    case (PyInt x)
    with assms(2) have "k \<in> int_options" by simp
    then show ?thesis using D PyInt unfolding int_options_def
      by (auto simp: read_options_def cast_Some bind_result_simps)
  next
    case (PyFloat x)
    with assms(2) have "k \<in> double_options" by simp
    then show ?thesis using D PyFloat unfolding double_options_def
      by (auto simp: read_options_def cast_Some bind_result_simps)
  next
    case (PySunBool x)
    with assms(2) have "k \<in> sunbooleantype_options" by simp
    then show ?thesis using D PySunBool unfolding sunbooleantype_options_def
      by (auto simp: read_options_def cast_Some bind_result_simps)
  next
    case (PyStr x)
    with assms(2) show ?thesis by simp
  qed
qed

lemma read_options_with: "read_options (options_with j l p) = Inr (members_with j l p)"
  by (simp add: read_options_def options_with_def members_with_def cast_bool_def
      cast_int_def cast_double_def cast_sunbooleantype_def cast_string_def bind_result_simps)

lemma members_with_strings:
  "jacobian (members_with j l p) = j"
  "linear_solver (members_with j l p) = l"
  "preconditioner (members_with j l p) = p"
  by (simp_all add: members_with_def)

lemma read_strings_only: "\<exists>k. read_options strings_only = Inl (KeyError k)"
  by (simp add: read_options_def strings_only_def cast_bool_def bind_result_simps)

section \<open>The body, step by step\<close>

lemma compatible_accepted: "(j, l) \<in> compatibility_matrix \<Longrightarrow> j \<in> accepted_jacobians"
  by (auto simp: compatibility_matrix_def accepted_jacobians_def)

lemma jacobian_flags_Inr:
  "jacobian_flags r = Inr s \<longleftrightarrow>
     jacobian r \<in> accepted_jacobians \<and>
     s = r\<lparr>using_sparse_matrix := (jacobian r = ''sparse'' \<or> jacobian r = ''matrix-free''),
           using_banded_matrix := (jacobian r = ''banded'')\<rparr>"
  unfolding jacobian_flags_def accepted_jacobians_def Let_def
  by auto

lemma jacobian_flags_Inl:
  "jacobian_flags r = Inl e \<longleftrightarrow>
     jacobian r \<notin> accepted_jacobians \<and>
     e = DomainError (unknown_jacobian_message (jacobian r))"
  unfolding jacobian_flags_def accepted_jacobians_def Let_def
  by auto

lemma linear_solver_check_Inr:
  "linear_solver_check r = Inr s \<longleftrightarrow>
     (jacobian r, linear_solver r) \<in> compatibility_matrix \<and>
     s = r\<lparr>using_iterative_solver := (linear_solver r \<in> krylov_solvers)\<rparr>"
  unfolding linear_solver_check_def compatibility_matrix_def krylov_solvers_def Let_def
  by auto

lemma linear_solver_check_Inl:
  "linear_solver_check r = Inl e \<Longrightarrow>
     (jacobian r, linear_solver r) \<notin> compatibility_matrix \<and>
     (\<exists>m. e = DomainError m \<and>
        m \<in> {banded_message (jacobian r) (linear_solver r),
             sparse_message (jacobian r) (linear_solver r),
             matrix_free_message (jacobian r) (linear_solver r),
             none_message (jacobian r) (linear_solver r),
             other_message (jacobian r) (linear_solver r)})"
  unfolding linear_solver_check_def compatibility_matrix_def krylov_solvers_def Let_def
  by (auto split: if_splits)

lemma messages_name_both:
  "names_both j l (banded_message j l)"
  "names_both j l (sparse_message j l)"
  "names_both j l (matrix_free_message j l)"
  "names_both j l (none_message j l)"
  "names_both j l (other_message j l)"
  unfolding names_both_def banded_message_def sparse_message_def matrix_free_message_def
    none_message_def other_message_def incompatible_prefix_def sublist_def
  by (rule exI[of _ "''Unknown linear solver or incompatible options: ''"], simp,
      rule exI[of _ "''Unknown linear solver or incompatible options: ''"], simp,
      rule exI[of _ "''Unknown linear solver or incompatible options. ''"], simp,
      rule exI[of _ "''Unknown linear solver or incompatible options: ''"], simp,
      rule exI[of _ "''Unknown linear solver or incompatible options. ''"], simp)

lemma preconditioner_check_Inr:
  "preconditioner_check r = Inr s \<longleftrightarrow>
     (using_iterative_solver r \<longrightarrow> preconditioner r \<in> accepted_preconditioners) \<and>
     s = r\<lparr>preconditioner :=
             (if using_iterative_solver r then preconditioner r else ''none'')\<rparr>"
  unfolding preconditioner_check_def accepted_preconditioners_def
  by auto

lemma preconditioner_check_Inl:
  "preconditioner_check r = Inl e \<longleftrightarrow>
     using_iterative_solver r \<and> preconditioner r \<notin> accepted_preconditioners \<and>
     e = DomainError (unknown_preconditioner_message (preconditioner r))"
  unfolding preconditioner_check_def accepted_preconditioners_def
  by auto

section \<open>The messages as read through what()\<close>

lemma what_no_NUL: "CHR 0x00 \<notin> set m \<Longrightarrow> domain_error_what m = m"
  by (auto simp: domain_error_what_def)

lemma what_simps:
  "domain_error_what [] = []"
  "domain_error_what (c # s) = (if c = CHR 0x00 then [] else c # domain_error_what s)"
  by (simp_all add: domain_error_what_def)

lemma what_append:
  "domain_error_what (a @ b) =
     (if CHR 0x00 \<in> set a then domain_error_what a else a @ domain_error_what b)"
  by (induction a) (auto simp: domain_error_what_def)

lemma accepted_jacobian_no_NUL: "j \<in> accepted_jacobians \<Longrightarrow> CHR 0x00 \<notin> set j"
  by (auto simp: accepted_jacobians_def)

lemma what_incompatible:
  assumes "CHR 0x00 \<notin> set sep" and "CHR 0x00 \<notin> set j"
  shows "domain_error_what (incompatible_prefix sep j l @ rest) =
    (''Unknown linear solver or incompatible options'' @ sep) @
    (''jacobian = \"'' @ j @ ''\" linear solver = \"'' @ domain_error_what l) @
    (if CHR 0x00 \<in> set l then [] else domain_error_what rest)"
  using assms by (simp add: incompatible_prefix_def what_append what_simps what_no_NUL)

lemma what_names_prefix_aux:
  assumes "CHR 0x00 \<notin> set sep" and "CHR 0x00 \<notin> set j"
  shows "names_jacobian_and_solver_prefix j l
    (domain_error_what (incompatible_prefix sep j l @ rest))"
  unfolding names_jacobian_and_solver_prefix_def sublist_def what_incompatible [OF assms]
  by blast

lemma what_names_prefix:
  assumes "CHR 0x00 \<notin> set j"
  shows "names_jacobian_and_solver_prefix j l (domain_error_what (banded_message j l))"
    and "names_jacobian_and_solver_prefix j l (domain_error_what (sparse_message j l))"
    and "names_jacobian_and_solver_prefix j l (domain_error_what (matrix_free_message j l))"
    and "names_jacobian_and_solver_prefix j l (domain_error_what (none_message j l))"
    and "names_jacobian_and_solver_prefix j l (domain_error_what (other_message j l))"
  unfolding banded_message_def sparse_message_def matrix_free_message_def
    none_message_def other_message_def
  by (rule what_names_prefix_aux [OF _ assms]; simp)+

lemma what_names_both:
  assumes "CHR 0x00 \<notin> set j" and "CHR 0x00 \<notin> set l"
  shows "domain_error_what (banded_message j l) = banded_message j l"
    and "domain_error_what (sparse_message j l) = sparse_message j l"
    and "domain_error_what (matrix_free_message j l) = matrix_free_message j l"
    and "domain_error_what (none_message j l) = none_message j l"
    and "domain_error_what (other_message j l) = other_message j l"
  using assms
  by (simp_all add: what_no_NUL banded_message_def sparse_message_def
      matrix_free_message_def none_message_def other_message_def incompatible_prefix_def)

lemma what_heads:
  "prefix ''Unknown jacobian type \"'' (domain_error_what (unknown_jacobian_message j))"
  "prefix ''Unknown linear solver or incompatible options''
     (domain_error_what (incompatible_prefix sep j l @ rest))"
  "prefix ''Unknown preconditioner \"'' (domain_error_what (unknown_preconditioner_message p))"
  by (simp_all add: unknown_jacobian_message_def incompatible_prefix_def
      unknown_preconditioner_message_def what_simps)

lemma what_unknown_jacobian:
  "prefix (''Unknown jacobian type \"'' @ domain_error_what j)
     (domain_error_what (unknown_jacobian_message j))"
  by (auto simp: unknown_jacobian_message_def what_simps what_append what_no_NUL)

section \<open>The body as a whole, and the constructor\<close>

lemma Options_body_Inr:
  "Options_body r = Inr s \<longleftrightarrow>
     (jacobian r, linear_solver r) \<in> compatibility_matrix \<and>
     (linear_solver r \<in> krylov_solvers \<longrightarrow> preconditioner r \<in> accepted_preconditioners) \<and>
     s = r\<lparr>using_sparse_matrix := (jacobian r = ''sparse'' \<or> jacobian r = ''matrix-free''),
           using_banded_matrix := (jacobian r = ''banded''),
           using_iterative_solver := (linear_solver r \<in> krylov_solvers),
           preconditioner :=
             (if linear_solver r \<in> krylov_solvers then preconditioner r else ''none'')\<rparr>"
  unfolding Options_body_def
  by (auto simp: bind_result_Inr_iff jacobian_flags_Inr linear_solver_check_Inr
      preconditioner_check_Inr dest: compatible_accepted)

lemma Options_body_unknown_jacobian:
  assumes "jacobian r \<notin> accepted_jacobians"
  shows "Options_body r = Inl (DomainError (unknown_jacobian_message (jacobian r)))"
proof -
  have "jacobian_flags r = Inl (DomainError (unknown_jacobian_message (jacobian r)))"
    using assms by (simp add: jacobian_flags_Inl)
  then show ?thesis by (simp add: Options_body_def bind_result_simps)
qed

lemma Options_body_incompatible:
  assumes "jacobian r \<in> accepted_jacobians"
    and "(jacobian r, linear_solver r) \<notin> compatibility_matrix"
  shows "\<exists>m. Options_body r = Inl (DomainError m) \<and>
    names_both (jacobian r) (linear_solver r) m"
proof -
  obtain s where s: "jacobian_flags r = Inr s" "jacobian s = jacobian r"
    "linear_solver s = linear_solver r"
    using assms(1) by (simp add: jacobian_flags_Inr)
  have "\<exists>e. linear_solver_check s = Inl e"
    using assms(2) s(2,3) by (cases "linear_solver_check s") (auto simp: linear_solver_check_Inr)
  then obtain e where e: "linear_solver_check s = Inl e" ..
  from linear_solver_check_Inl [OF e] s(2,3) obtain m where
    "e = DomainError m" "names_both (jacobian r) (linear_solver r) m"
    by (auto simp: messages_name_both)
  with s(1) e show ?thesis by (simp add: Options_body_def bind_result_simps)
qed

lemma Options_body_incompatible_messages:
  assumes "jacobian r \<in> accepted_jacobians"
    and "(jacobian r, linear_solver r) \<notin> compatibility_matrix"
  shows "\<exists>m. Options_body r = Inl (DomainError m) \<and>
    m \<in> {banded_message (jacobian r) (linear_solver r),
         sparse_message (jacobian r) (linear_solver r),
         matrix_free_message (jacobian r) (linear_solver r),
         none_message (jacobian r) (linear_solver r),
         other_message (jacobian r) (linear_solver r)}"
proof -
  obtain s where s: "jacobian_flags r = Inr s" "jacobian s = jacobian r"
    "linear_solver s = linear_solver r"
    using assms(1) by (simp add: jacobian_flags_Inr)
  have "\<exists>e. linear_solver_check s = Inl e"
    using assms(2) s(2,3) by (cases "linear_solver_check s") (auto simp: linear_solver_check_Inr)
  then obtain e where e: "linear_solver_check s = Inl e" ..
  from linear_solver_check_Inl [OF e] s(2,3) obtain m where
    "e = DomainError m"
    "m \<in> {banded_message (jacobian r) (linear_solver r),
         sparse_message (jacobian r) (linear_solver r),
         matrix_free_message (jacobian r) (linear_solver r),
         none_message (jacobian r) (linear_solver r),
         other_message (jacobian r) (linear_solver r)}"
    by auto
  with s(1) e show ?thesis by (simp add: Options_body_def bind_result_simps)
qed

lemma Options_body_incompatible_what:
  assumes "jacobian r \<in> accepted_jacobians"
    and "(jacobian r, linear_solver r) \<notin> compatibility_matrix"
  shows "\<exists>m. Options_body r = Inl (DomainError m) \<and>
    names_both (jacobian r) (linear_solver r) m \<and>
    prefix ''Unknown linear solver or incompatible options'' (domain_error_what m) \<and>
    names_jacobian_and_solver_prefix (jacobian r) (linear_solver r) (domain_error_what m) \<and>
    (CHR 0x00 \<notin> set (linear_solver r) \<longrightarrow>
       names_both (jacobian r) (linear_solver r) (domain_error_what m))"
proof -
  note j = accepted_jacobian_no_NUL [OF assms(1)]
  from Options_body_incompatible_messages [OF assms] obtain m where
    m: "Options_body r = Inl (DomainError m)"
    "m \<in> {banded_message (jacobian r) (linear_solver r),
         sparse_message (jacobian r) (linear_solver r),
         matrix_free_message (jacobian r) (linear_solver r),
         none_message (jacobian r) (linear_solver r),
         other_message (jacobian r) (linear_solver r)}"
    by blast
  from m(2) have 1: "names_both (jacobian r) (linear_solver r) m"
    by (auto simp: messages_name_both)
  from m(2) have 2: "prefix ''Unknown linear solver or incompatible options'' (domain_error_what m)"
    unfolding banded_message_def sparse_message_def matrix_free_message_def
      none_message_def other_message_def
    by (auto simp: what_heads(2))
  from m(2) have 3:
    "names_jacobian_and_solver_prefix (jacobian r) (linear_solver r) (domain_error_what m)"
    by (auto simp: what_names_prefix [OF j])
  have 4: "names_both (jacobian r) (linear_solver r) (domain_error_what m)"
    if "CHR 0x00 \<notin> set (linear_solver r)"
    using m(2) 1 by (auto simp: what_names_both [OF j that])
  from m(1) 1 2 3 4 show ?thesis by blast
qed

lemma Options_body_unknown_preconditioner:
  assumes "(jacobian r, linear_solver r) \<in> compatibility_matrix"
    and "linear_solver r \<in> krylov_solvers"
    and "preconditioner r \<notin> accepted_preconditioners"
  shows "Options_body r =
    Inl (DomainError (unknown_preconditioner_message (preconditioner r)))"
proof -
  obtain s where s: "jacobian_flags r = Inr s" "jacobian s = jacobian r"
    "linear_solver s = linear_solver r" "preconditioner s = preconditioner r"
    using compatible_accepted [OF assms(1)] by (simp add: jacobian_flags_Inr)
  obtain t where t: "linear_solver_check s = Inr t" "using_iterative_solver t"
    "preconditioner t = preconditioner r"
    using assms(1,2) s(2,3,4) by (simp add: linear_solver_check_Inr)
  have "preconditioner_check t =
      Inl (DomainError (unknown_preconditioner_message (preconditioner r)))"
    using t(2,3) assms(3) by (simp add: preconditioner_check_Inl)
  with s(1) t(1) show ?thesis by (simp add: Options_body_def bind_result_simps)
qed

lemma Options_body_Inl_DomainError:
  assumes "Options_body r = Inl e"
  shows "is_DomainError e"
proof -
  consider "jacobian r \<notin> accepted_jacobians"
    | "jacobian r \<in> accepted_jacobians"
      "(jacobian r, linear_solver r) \<notin> compatibility_matrix"
    | "(jacobian r, linear_solver r) \<in> compatibility_matrix"
      "linear_solver r \<in> krylov_solvers"
      "preconditioner r \<notin> accepted_preconditioners"
    | "(jacobian r, linear_solver r) \<in> compatibility_matrix"
      "linear_solver r \<in> krylov_solvers \<longrightarrow> preconditioner r \<in> accepted_preconditioners"
    by blast
  then show ?thesis
  proof cases
    case 1
    from Options_body_unknown_jacobian [OF 1] assms show ?thesis by simp
  next
    case 2
    from Options_body_incompatible [OF 2] assms show ?thesis by auto
  next
    case 3
    from Options_body_unknown_preconditioner [OF 3] assms show ?thesis by simp
  next
    case 4
    then have "\<exists>s. Options_body r = Inr s" by (simp add: Options_body_Inr)
    with assms show ?thesis by auto
  qed
qed

lemma Options_ctor_read: "read_options d = Inr r \<Longrightarrow> Options_ctor d = Options_body r"
  by (simp add: Options_ctor_def bind_result_simps)

lemma Options_ctor_Inr_iff:
  "Options_ctor d = Inr s \<longleftrightarrow> (\<exists>r. read_options d = Inr r \<and> Options_body r = Inr s)"
  by (simp add: Options_ctor_def bind_result_Inr_iff)

lemma Options_ctor_read_error: "read_options d = Inl e \<Longrightarrow> Options_ctor d = Inl e"
  by (simp add: Options_ctor_def bind_result_simps)

lemma Options_ctor_with: "Options_ctor (options_with j l p) = Options_body (members_with j l p)"
  by (simp add: Options_ctor_read read_options_with)

section \<open>Claims about the constructor\<close>

subsection \<open>C1: when construction succeeds\<close>

text \<open>
  C1, as amended. For every options dictionary from which the initialiser list reads all
  27 options (every key present, with a value that converts to the type of its member),
  construction of Options succeeds if and only if the (jacobian, linear solver) pair is
  in the compatibility matrix and, when the linear solver is one of the four Krylov
  solvers, the preconditioner is "none" or "BBDP".
\<close>

theorem construction_succeeds_iff_compatible:
  assumes "read_options d = Inr r"
  shows "(\<exists>opts. Options_ctor d = Inr opts) \<longleftrightarrow>
    (jacobian r, linear_solver r) \<in> compatibility_matrix \<and>
    (linear_solver r \<in> krylov_solvers \<longrightarrow> preconditioner r \<in> accepted_preconditioners)"
  by (simp add: Options_ctor_read [OF assms] Options_body_Inr)

text \<open>
  A matrix-free jacobian with SUNLinSol_SPGMR and the BBDP preconditioner is accepted; a
  dense jacobian with SUNLinSol_KLU is not.
\<close>

theorem construction_succeeds_iff_compatible_witness:
  "(\<exists>opts. Options_ctor (options_with ''matrix-free'' ''SUNLinSol_SPGMR'' ''BBDP'') = Inr opts) \<and>
   (''matrix-free'', ''SUNLinSol_SPGMR'') \<in> compatibility_matrix \<and>
   ''SUNLinSol_SPGMR'' \<in> krylov_solvers \<and> ''BBDP'' \<in> accepted_preconditioners \<and>
   \<not> (\<exists>opts. Options_ctor (options_with ''dense'' ''SUNLinSol_KLU'' ''none'') = Inr opts) \<and>
   (''dense'', ''SUNLinSol_KLU'') \<notin> compatibility_matrix"
  using construction_succeeds_iff_compatible
      [OF read_options_with, of "''matrix-free''" "''SUNLinSol_SPGMR''" "''BBDP''"]
    construction_succeeds_iff_compatible
      [OF read_options_with, of "''dense''" "''SUNLinSol_KLU''" "''none''"]
  by (simp add: members_with_strings compatibility_matrix_def krylov_solvers_def
      accepted_preconditioners_def)

text \<open>
  C1 as stated does not hold for every dictionary: the pair ("dense", "SUNLinSol_Dense")
  is in the matrix and its solver is not a Krylov solver, but a dictionary that holds
  only the three string options makes \<^verbatim>\<open>options["..."]\<close> throw a KeyError in the
  initialiser list, so construction does not succeed.
\<close>

theorem construction_fails_on_missing_key:
  "strings_only ''jacobian'' = Some (PyStr ''dense'') \<and>
   strings_only ''linear_solver'' = Some (PyStr ''SUNLinSol_Dense'') \<and>
   strings_only ''preconditioner'' = Some (PyStr ''none'') \<and>
   (''dense'', ''SUNLinSol_Dense'') \<in> compatibility_matrix \<and>
   ''SUNLinSol_Dense'' \<notin> krylov_solvers \<and>
   (\<exists>k. Options_ctor strings_only = Inl (KeyError k))"
proof -
  obtain k where "read_options strings_only = Inl (KeyError k)"
    using read_strings_only ..
  then have "Options_ctor strings_only = Inl (KeyError k)"
    by (rule Options_ctor_read_error)
  then show ?thesis
    by (auto simp: strings_only_def compatibility_matrix_def krylov_solvers_def)
qed

subsection \<open>C2: the message for an incompatible pair\<close>

text \<open>
  C2, as amended. For every options dictionary whose (jacobian, linear solver) pair is
  outside the compatibility matrix, construction of Options fails. When all options are
  read, it fails with a domain error. If the jacobian is one of the five accepted kinds,
  the message read through \<^verbatim>\<open>what()\<close> names the jacobian and names the linear solver as
  far as its first NUL character
  (\<^verbatim>\<open>jacobian = "..." linear solver = "...\<close>), hence both values in full when the
  linear solver holds no NUL character. If the jacobian is not an accepted kind, the
  message is the one for an unknown jacobian type, which names the jacobian as far as its
  first NUL character and need not name the linear solver.
\<close>

theorem incompatible_pair_message:
  assumes "\<forall>j l. d ''jacobian'' = Some (PyStr j) \<and> d ''linear_solver'' = Some (PyStr l) \<longrightarrow>
              (j, l) \<notin> compatibility_matrix"
  shows "(\<exists>e. Options_ctor d = Inl e) \<and>
    (\<forall>r. read_options d = Inr r \<longrightarrow>
       (\<exists>m. Options_ctor d = Inl (DomainError m) \<and>
          (if jacobian r \<in> accepted_jacobians then
             names_jacobian_and_solver_prefix (jacobian r) (linear_solver r)
               (domain_error_what m) \<and>
             (CHR 0x00 \<notin> set (linear_solver r) \<longrightarrow>
                names_both (jacobian r) (linear_solver r) (domain_error_what m))
           else m = unknown_jacobian_message (jacobian r) \<and>
             prefix (''Unknown jacobian type \"'' @ domain_error_what (jacobian r))
               (domain_error_what m))))"
proof (cases "read_options d")
  case (Inl e)
  then show ?thesis by (auto dest: Options_ctor_read_error)
next
  case (Inr r)
  from assms read_options_strings(1,2) [OF Inr]
  have out: "(jacobian r, linear_solver r) \<notin> compatibility_matrix" by blast
  have "\<exists>m. Options_ctor d = Inl (DomainError m) \<and>
          (if jacobian r \<in> accepted_jacobians then
             names_jacobian_and_solver_prefix (jacobian r) (linear_solver r)
               (domain_error_what m) \<and>
             (CHR 0x00 \<notin> set (linear_solver r) \<longrightarrow>
                names_both (jacobian r) (linear_solver r) (domain_error_what m))
           else m = unknown_jacobian_message (jacobian r) \<and>
             prefix (''Unknown jacobian type \"'' @ domain_error_what (jacobian r))
               (domain_error_what m))"
  proof (cases "jacobian r \<in> accepted_jacobians")
    case True
    from Options_body_incompatible_what [OF True out] show ?thesis
      unfolding Options_ctor_read [OF Inr] using True by auto
  next
    case False
    from Options_body_unknown_jacobian [OF False] show ?thesis
      unfolding Options_ctor_read [OF Inr]
      using False what_unknown_jacobian [of "jacobian r"] by simp
  qed
  then show ?thesis using Inr by auto
qed

text \<open>A banded jacobian with SUNLinSol_KLU: both values are in the message.\<close>

theorem incompatible_pair_message_witness:
  "(''banded'', ''SUNLinSol_KLU'') \<notin> compatibility_matrix \<and>
   ''banded'' \<in> accepted_jacobians \<and> CHR 0x00 \<notin> set ''SUNLinSol_KLU'' \<and>
   (\<exists>m. Options_ctor (options_with ''banded'' ''SUNLinSol_KLU'' ''none'') = Inl (DomainError m) \<and>
        names_both ''banded'' ''SUNLinSol_KLU'' (domain_error_what m))"
proof -
  let ?d = "options_with ''banded'' ''SUNLinSol_KLU'' ''none''"
  have 1: "(''banded'', ''SUNLinSol_KLU'') \<notin> compatibility_matrix"
    by (simp add: compatibility_matrix_def krylov_solvers_def)
  have 2: "''banded'' \<in> accepted_jacobians"
    by (simp add: accepted_jacobians_def)
  have 3: "CHR 0x00 \<notin> set ''SUNLinSol_KLU''" by simp
  have "?d ''jacobian'' = Some (PyStr ''banded'')"
    "?d ''linear_solver'' = Some (PyStr ''SUNLinSol_KLU'')"
    by (simp_all add: options_with_def)
  with 1 have "\<forall>j l. ?d ''jacobian'' = Some (PyStr j) \<and> ?d ''linear_solver'' = Some (PyStr l) \<longrightarrow>
      (j, l) \<notin> compatibility_matrix"
    by simp
  from incompatible_pair_message [OF this] read_options_with [of "''banded''" "''SUNLinSol_KLU''" "''none''"]
  have "\<exists>m. Options_ctor ?d = Inl (DomainError m) \<and>
        names_both ''banded'' ''SUNLinSol_KLU'' (domain_error_what m)"
    using 2 by (auto simp: members_with_strings)
  with 1 2 3 show ?thesis by blast
qed

text \<open>
  C2 as stated does not hold in three cases, each with a pair outside the matrix. For
  ("full", "SUNLinSol_Dense") the jacobian is checked first (lines 43 to 63) and the
  message of that check does not contain the linear solver. For a banded jacobian and
  a linear solver that holds a NUL character (\<^verbatim>\<open>KLU\<close>, NUL, \<^verbatim>\<open>x\<close>) the text
  read through \<^verbatim>\<open>what()\<close> stops inside the linear solver and does not contain it.
  For a dictionary that holds only the three string options the construction ends with
  the KeyError of the initialiser list, which is not built from either value.
\<close>

theorem message_does_not_always_name_both:
  "(''full'', ''SUNLinSol_Dense'') \<notin> compatibility_matrix \<and>
   Options_ctor (options_with ''full'' ''SUNLinSol_Dense'' ''none'') =
     Inl (DomainError (unknown_jacobian_message ''full'')) \<and>
   domain_error_what (unknown_jacobian_message ''full'') =
     ''Unknown jacobian type \"full\". Should be one of \"sparse\", \"banded\", \"dense\", \"matrix-free\" or \"none\".'' \<and>
   \<not> sublist ''SUNLinSol_Dense'' (domain_error_what (unknown_jacobian_message ''full'')) \<and>
   (''banded'', ''KLU'' @ [CHR 0x00] @ ''x'') \<notin> compatibility_matrix \<and>
   Options_ctor (options_with ''banded'' (''KLU'' @ [CHR 0x00] @ ''x'') ''none'') =
     Inl (DomainError (banded_message ''banded'' (''KLU'' @ [CHR 0x00] @ ''x''))) \<and>
   domain_error_what (banded_message ''banded'' (''KLU'' @ [CHR 0x00] @ ''x'')) =
     ''Unknown linear solver or incompatible options: jacobian = \"banded\" linear solver = \"KLU'' \<and>
   \<not> sublist (''KLU'' @ [CHR 0x00] @ ''x'')
     (domain_error_what (banded_message ''banded'' (''KLU'' @ [CHR 0x00] @ ''x''))) \<and>
   incompatible_strings_only ''jacobian'' = Some (PyStr ''dense'') \<and>
   incompatible_strings_only ''linear_solver'' = Some (PyStr ''SUNLinSol_KLU'') \<and>
   (''dense'', ''SUNLinSol_KLU'') \<notin> compatibility_matrix \<and>
   (\<exists>k. Options_ctor incompatible_strings_only = Inl (KeyError k))"
proof -
  have 1: "(''full'', ''SUNLinSol_Dense'') \<notin> compatibility_matrix"
    "(''banded'', ''KLU'' @ [CHR 0x00] @ ''x'') \<notin> compatibility_matrix"
    "(''dense'', ''SUNLinSol_KLU'') \<notin> compatibility_matrix"
    by (simp_all add: compatibility_matrix_def krylov_solvers_def)
  have "jacobian (members_with ''full'' ''SUNLinSol_Dense'' ''none'') \<notin> accepted_jacobians"
    by (simp add: members_with_strings accepted_jacobians_def)
  from Options_body_unknown_jacobian [OF this]
  have 2: "Options_ctor (options_with ''full'' ''SUNLinSol_Dense'' ''none'') =
     Inl (DomainError (unknown_jacobian_message ''full''))"
    by (simp add: Options_ctor_with members_with_strings)
  have 3: "domain_error_what (unknown_jacobian_message ''full'') =
     ''Unknown jacobian type \"full\". Should be one of \"sparse\", \"banded\", \"dense\", \"matrix-free\" or \"none\".''"
    by (simp add: unknown_jacobian_message_def what_simps)
  have 4: "\<not> sublist ''SUNLinSol_Dense'' (domain_error_what (unknown_jacobian_message ''full''))"
    unfolding 3 by (simp add: sublist_Cons_right)
  have 5: "Options_ctor (options_with ''banded'' (''KLU'' @ [CHR 0x00] @ ''x'') ''none'') =
     Inl (DomainError (banded_message ''banded'' (''KLU'' @ [CHR 0x00] @ ''x'')))"
    by (simp add: Options_ctor_with Options_body_def jacobian_flags_def linear_solver_check_def
        members_with_def bind_result_simps)
  have 6: "domain_error_what (banded_message ''banded'' (''KLU'' @ [CHR 0x00] @ ''x'')) =
     ''Unknown linear solver or incompatible options: jacobian = \"banded\" linear solver = \"KLU''"
    by (simp add: banded_message_def incompatible_prefix_def what_simps)
  have 7: "\<not> sublist (''KLU'' @ [CHR 0x00] @ ''x'')
     (domain_error_what (banded_message ''banded'' (''KLU'' @ [CHR 0x00] @ ''x'')))"
    unfolding 6 by (simp add: sublist_Cons_right)
  have 8: "incompatible_strings_only ''jacobian'' = Some (PyStr ''dense'')"
    "incompatible_strings_only ''linear_solver'' = Some (PyStr ''SUNLinSol_KLU'')"
    by (simp_all add: incompatible_strings_only_def)
  have "\<exists>k. read_options incompatible_strings_only = Inl (KeyError k)"
    by (simp add: read_options_def incompatible_strings_only_def cast_bool_def bind_result_simps)
  then have 9: "\<exists>k. Options_ctor incompatible_strings_only = Inl (KeyError k)"
    by (auto dest: Options_ctor_read_error)
  from 1 2 3 4 5 6 7 8 9 show ?thesis by blast
qed

subsection \<open>C3: an unknown jacobian\<close>

text \<open>
  C3. For every options dictionary whose jacobian value is not one of "sparse", "banded",
  "dense", "none" and "matrix-free", construction of Options fails, whatever the other
  entries of the dictionary are (a missing jacobian and a jacobian that is not a string
  fail as well).
\<close>

theorem unknown_jacobian_fails:
  assumes "d ''jacobian'' \<notin> (\<lambda>j. Some (PyStr j)) ` accepted_jacobians"
  shows "\<exists>e. Options_ctor d = Inl e"
proof (cases "read_options d")
  case (Inl e)
  then show ?thesis by (auto dest: Options_ctor_read_error)
next
  case (Inr r)
  with assms have "jacobian r \<notin> accepted_jacobians"
    by (auto simp: read_options_strings)
  from Options_body_unknown_jacobian [OF this] show ?thesis
    by (simp add: Options_ctor_read [OF Inr])
qed

theorem unknown_jacobian_fails_witness:
  "options_with ''full'' ''SUNLinSol_Dense'' ''none'' ''jacobian'' = Some (PyStr ''full'') \<and>
   ''full'' \<notin> accepted_jacobians \<and>
   (\<exists>e. Options_ctor (options_with ''full'' ''SUNLinSol_Dense'' ''none'') = Inl e)"
proof -
  have 1: "options_with ''full'' ''SUNLinSol_Dense'' ''none'' ''jacobian'' = Some (PyStr ''full'')"
    by (simp add: options_with_def)
  have 2: "''full'' \<notin> accepted_jacobians"
    by (simp add: accepted_jacobians_def)
  have "options_with ''full'' ''SUNLinSol_Dense'' ''none'' ''jacobian''
      \<notin> (\<lambda>j. Some (PyStr j)) ` accepted_jacobians"
    using 2 by (auto simp: 1)
  with unknown_jacobian_fails [of "options_with ''full'' ''SUNLinSol_Dense'' ''none''"] 1 2
  show ?thesis by blast
qed

subsection \<open>C4: the preconditioner of an iterative solver\<close>

text \<open>
  C4. For every options dictionary that selects one of the four Krylov linear solvers
  with a sparse or matrix-free jacobian: when the preconditioner value is neither "none"
  nor "BBDP", construction fails; when it is one of the two, the preconditioner check
  passes, that is, construction succeeds once the initialiser list has read the
  options.
\<close>

theorem preconditioner_checked_for_krylov:
  assumes "d ''linear_solver'' = Some (PyStr l)" and "l \<in> krylov_solvers"
    and "d ''jacobian'' = Some (PyStr j)" and "j = ''sparse'' \<or> j = ''matrix-free''"
  shows "(d ''preconditioner'' \<notin> (\<lambda>p. Some (PyStr p)) ` accepted_preconditioners \<longrightarrow>
            (\<exists>e. Options_ctor d = Inl e)) \<and>
         (d ''preconditioner'' \<in> (\<lambda>p. Some (PyStr p)) ` accepted_preconditioners \<longrightarrow>
            (\<forall>r. read_options d = Inr r \<longrightarrow> (\<exists>opts. Options_ctor d = Inr opts)))"
proof (cases "read_options d")
  case (Inl e)
  then show ?thesis by (auto dest: Options_ctor_read_error)
next
  case (Inr r)
  note S = read_options_strings [OF Inr]
  from S(1,2) assms have jl: "jacobian r = j" "linear_solver r = l" by simp_all
  with assms(2,4) have compat: "(jacobian r, linear_solver r) \<in> compatibility_matrix"
    by (auto simp: compatibility_matrix_def)
  show ?thesis
  proof (cases "preconditioner r \<in> accepted_preconditioners")
    case True
    with compat have "\<exists>opts. Options_body r = Inr opts"
      by (simp add: Options_body_Inr)
    then show ?thesis using True S(3) by (auto simp: Options_ctor_read [OF Inr])
  next
    case False
    from Options_body_unknown_preconditioner [OF compat _ False] assms(2) jl
    have "\<exists>e. Options_ctor d = Inl e" by (simp add: Options_ctor_read [OF Inr])
    then show ?thesis using False S(3) Inr by auto
  qed
qed

text \<open>SUNLinSol_SPGMR: the preconditioner "ILU" is refused, "BBDP" is accepted.\<close>

theorem preconditioner_checked_for_krylov_witness:
  "''SUNLinSol_SPGMR'' \<in> krylov_solvers \<and>
   ''ILU'' \<notin> accepted_preconditioners \<and> ''BBDP'' \<in> accepted_preconditioners \<and>
   (\<exists>e. Options_ctor (options_with ''sparse'' ''SUNLinSol_SPGMR'' ''ILU'') = Inl e) \<and>
   (\<exists>opts. Options_ctor (options_with ''matrix-free'' ''SUNLinSol_SPGMR'' ''BBDP'') = Inr opts)"
proof -
  have k: "''SUNLinSol_SPGMR'' \<in> krylov_solvers" by (simp add: krylov_solvers_def)
  have lk: "options_with j ''SUNLinSol_SPGMR'' p ''linear_solver'' = Some (PyStr ''SUNLinSol_SPGMR'')"
    and lj: "options_with j ''SUNLinSol_SPGMR'' p ''jacobian'' = Some (PyStr j)"
    and lp: "options_with j ''SUNLinSol_SPGMR'' p ''preconditioner'' = Some (PyStr p)" for j p
    by (simp_all add: options_with_def)
  have a: "''ILU'' \<notin> accepted_preconditioners" "''BBDP'' \<in> accepted_preconditioners"
    by (simp_all add: accepted_preconditioners_def)
  have 1: "\<exists>e. Options_ctor (options_with ''sparse'' ''SUNLinSol_SPGMR'' ''ILU'') = Inl e"
    using preconditioner_checked_for_krylov
        [OF lk [of "''sparse''" "''ILU''"] k lj [of "''sparse''" "''ILU''"]] a
    by (auto simp: lp)
  have 2: "\<exists>opts. Options_ctor (options_with ''matrix-free'' ''SUNLinSol_SPGMR'' ''BBDP'') = Inr opts"
    using preconditioner_checked_for_krylov
        [OF lk [of "''matrix-free''" "''BBDP''"] k lj [of "''matrix-free''" "''BBDP''"]] a
      read_options_with [of "''matrix-free''" "''SUNLinSol_SPGMR''" "''BBDP''"]
    by (auto simp: lp)
  from k a 1 2 show ?thesis by blast
qed

subsection \<open>C5: the preconditioner of a direct solver\<close>

text \<open>
  C5. For every options dictionary on which construction succeeds with a linear solver
  that is not iterative, the preconditioner member of the result is "none", whatever
  preconditioner the dictionary supplied.
\<close>

theorem preconditioner_forced_to_none:
  assumes "Options_ctor d = Inr opts" and "linear_solver opts \<notin> krylov_solvers"
  shows "preconditioner opts = ''none''"
  using assms by (auto simp: Options_ctor_Inr_iff Options_body_Inr)

text \<open>A dense jacobian with SUNLinSol_Dense, and "BBDP" supplied as preconditioner.\<close>

theorem preconditioner_forced_to_none_witness:
  "options_with ''dense'' ''SUNLinSol_Dense'' ''BBDP'' ''preconditioner'' = Some (PyStr ''BBDP'') \<and>
   (\<exists>opts. Options_ctor (options_with ''dense'' ''SUNLinSol_Dense'' ''BBDP'') = Inr opts \<and>
      linear_solver opts = ''SUNLinSol_Dense'' \<and> ''SUNLinSol_Dense'' \<notin> krylov_solvers \<and>
      preconditioner opts = ''none'')"
proof -
  have 1: "options_with ''dense'' ''SUNLinSol_Dense'' ''BBDP'' ''preconditioner'' = Some (PyStr ''BBDP'')"
    by (simp add: options_with_def)
  have k: "''SUNLinSol_Dense'' \<notin> krylov_solvers" by (simp add: krylov_solvers_def)
  obtain opts where o: "Options_ctor (options_with ''dense'' ''SUNLinSol_Dense'' ''BBDP'') = Inr opts"
    "linear_solver opts = ''SUNLinSol_Dense''"
    by (simp add: Options_ctor_with Options_body_Inr members_with_strings
        compatibility_matrix_def krylov_solvers_def)
  from preconditioner_forced_to_none [OF o(1)] o k 1 show ?thesis by auto
qed

subsection \<open>C6: how validation fails\<close>

text \<open>
  C6. Once the initialiser list has read the options, every validation failure of the
  constructor is a domain error with a message that names what was refused, returned by
  the construction itself: an unknown jacobian kind gives the unknown-jacobian message,
  an accepted jacobian with an incompatible linear solver gives a message naming both,
  an invalid preconditioner for an iterative solver gives the unknown-preconditioner
  message, and the body fails in no other way. Read through \<^verbatim>\<open>what()\<close>, each
  message keeps its descriptive head whatever the option values are, and the second
  names the jacobian and the linear solver as far as its first NUL character.
\<close>

theorem validation_failures_are_domain_errors:
  assumes "read_options d = Inr r"
  shows "(jacobian r \<notin> accepted_jacobians \<longrightarrow>
            Options_ctor d = Inl (DomainError (unknown_jacobian_message (jacobian r))) \<and>
            prefix ''Unknown jacobian type \"''
              (domain_error_what (unknown_jacobian_message (jacobian r)))) \<and>
         (jacobian r \<in> accepted_jacobians \<and>
          (jacobian r, linear_solver r) \<notin> compatibility_matrix \<longrightarrow>
            (\<exists>m. Options_ctor d = Inl (DomainError m) \<and>
                 names_both (jacobian r) (linear_solver r) m \<and>
                 prefix ''Unknown linear solver or incompatible options''
                   (domain_error_what m) \<and>
                 names_jacobian_and_solver_prefix (jacobian r) (linear_solver r)
                   (domain_error_what m))) \<and>
         ((jacobian r, linear_solver r) \<in> compatibility_matrix \<and>
          linear_solver r \<in> krylov_solvers \<and>
          preconditioner r \<notin> accepted_preconditioners \<longrightarrow>
            Options_ctor d =
              Inl (DomainError (unknown_preconditioner_message (preconditioner r))) \<and>
            prefix ''Unknown preconditioner \"''
              (domain_error_what (unknown_preconditioner_message (preconditioner r)))) \<and>
         (\<forall>e. Options_ctor d = Inl e \<longrightarrow> is_DomainError e)"
  unfolding Options_ctor_read [OF assms]
  using Options_body_unknown_jacobian [of r] Options_body_incompatible_what [of r]
    Options_body_unknown_preconditioner [of r] Options_body_Inl_DomainError [of r]
    what_heads(1) [of "jacobian r"] what_heads(3) [of "preconditioner r"]
  by blast

text \<open>One dictionary for each of the three failures.\<close>

theorem validation_failures_are_domain_errors_witness:
  "Options_ctor (options_with ''full'' ''SUNLinSol_KLU'' ''none'') =
     Inl (DomainError ''Unknown jacobian type \"full\". Should be one of \"sparse\", \"banded\", \"dense\", \"matrix-free\" or \"none\".'') \<and>
   (\<exists>m. Options_ctor (options_with ''none'' ''SUNLinSol_KLU'' ''none'') = Inl (DomainError m) \<and>
        names_both ''none'' ''SUNLinSol_KLU'' m) \<and>
   Options_ctor (options_with ''sparse'' ''SUNLinSol_SPBCGS'' ''ILU'') =
     Inl (DomainError ''Unknown preconditioner \"ILU\", use one of \"BBDP\" or \"none\"'')"
proof -
  have 1: "''full'' \<notin> accepted_jacobians" "''none'' \<in> accepted_jacobians"
    by (simp_all add: accepted_jacobians_def)
  have 2: "(''none'', ''SUNLinSol_KLU'') \<notin> compatibility_matrix"
    "(''sparse'', ''SUNLinSol_SPBCGS'') \<in> compatibility_matrix"
    "''SUNLinSol_SPBCGS'' \<in> krylov_solvers"
    by (simp_all add: compatibility_matrix_def krylov_solvers_def)
  have 3: "''ILU'' \<notin> accepted_preconditioners"
    by (simp add: accepted_preconditioners_def)
  note T = validation_failures_are_domain_errors [OF read_options_with, unfolded members_with_strings]
  from T [of "''full''" "''SUNLinSol_KLU''" "''none''"] 1
  have a: "Options_ctor (options_with ''full'' ''SUNLinSol_KLU'' ''none'') =
     Inl (DomainError (unknown_jacobian_message ''full''))" by blast
  from T [of "''none''" "''SUNLinSol_KLU''" "''none''"] 1 2
  have b: "\<exists>m. Options_ctor (options_with ''none'' ''SUNLinSol_KLU'' ''none'') = Inl (DomainError m) \<and>
        names_both ''none'' ''SUNLinSol_KLU'' m" by blast
  from T [of "''sparse''" "''SUNLinSol_SPBCGS''" "''ILU''"] 2 3
  have c: "Options_ctor (options_with ''sparse'' ''SUNLinSol_SPBCGS'' ''ILU'') =
     Inl (DomainError (unknown_preconditioner_message ''ILU''))" by blast
  from a b c show ?thesis
    by (simp add: unknown_jacobian_message_def unknown_preconditioner_message_def)
qed

subsection \<open>C7: the matrix flags\<close>

text \<open>
  C7. For every options dictionary on which construction succeeds, using_banded_matrix
  is true if and only if the jacobian is "banded", and using_sparse_matrix is true if and
  only if the jacobian is "sparse" or "matrix-free"; the jacobian member is the
  dictionary's jacobian.
\<close>

theorem matrix_flags_follow_jacobian:
  assumes "Options_ctor d = Inr opts"
  shows "(using_banded_matrix opts \<longleftrightarrow> jacobian opts = ''banded'') \<and>
         (using_sparse_matrix opts \<longleftrightarrow>
            jacobian opts = ''sparse'' \<or> jacobian opts = ''matrix-free'') \<and>
         d ''jacobian'' = Some (PyStr (jacobian opts))"
  using assms by (auto simp: Options_ctor_Inr_iff Options_body_Inr read_options_strings)

text \<open>A matrix-free jacobian leaves using_sparse_matrix set.\<close>

theorem matrix_flags_follow_jacobian_witness:
  "\<exists>opts. Options_ctor (options_with ''matrix-free'' ''SUNLinSol_SPFGMR'' ''none'') = Inr opts \<and>
     jacobian opts = ''matrix-free'' \<and> using_sparse_matrix opts \<and> \<not> using_banded_matrix opts"
proof -
  obtain opts where o:
    "Options_ctor (options_with ''matrix-free'' ''SUNLinSol_SPFGMR'' ''none'') = Inr opts"
    "jacobian opts = ''matrix-free''"
    by (simp add: Options_ctor_with Options_body_Inr members_with_strings
        compatibility_matrix_def krylov_solvers_def accepted_preconditioners_def)
  from matrix_flags_follow_jacobian [OF o(1)] o show ?thesis by auto
qed

subsection \<open>C8: the iterative-solver flag\<close>

text \<open>
  C8. For every options dictionary on which construction succeeds,
  using_iterative_solver is true if and only if the linear solver is one of
  "SUNLinSol_SPBCGS", "SUNLinSol_SPFGMR", "SUNLinSol_SPGMR" and "SUNLinSol_SPTFQMR"; the
  linear_solver member is the dictionary's linear solver.
\<close>

theorem iterative_flag_follows_linear_solver:
  assumes "Options_ctor d = Inr opts"
  shows "(using_iterative_solver opts \<longleftrightarrow> linear_solver opts \<in> krylov_solvers) \<and>
         d ''linear_solver'' = Some (PyStr (linear_solver opts))"
  using assms by (auto simp: Options_ctor_Inr_iff Options_body_Inr read_options_strings)

theorem iterative_flag_follows_linear_solver_witness:
  "(\<exists>opts. Options_ctor (options_with ''sparse'' ''SUNLinSol_SPTFQMR'' ''none'') = Inr opts \<and>
      linear_solver opts = ''SUNLinSol_SPTFQMR'' \<and> using_iterative_solver opts) \<and>
   (\<exists>opts. Options_ctor (options_with ''sparse'' ''SUNLinSol_KLU'' ''none'') = Inr opts \<and>
      linear_solver opts = ''SUNLinSol_KLU'' \<and> \<not> using_iterative_solver opts)"
proof -
  obtain o1 where o1:
    "Options_ctor (options_with ''sparse'' ''SUNLinSol_SPTFQMR'' ''none'') = Inr o1"
    "linear_solver o1 = ''SUNLinSol_SPTFQMR''"
    by (simp add: Options_ctor_with Options_body_Inr members_with_strings
        compatibility_matrix_def krylov_solvers_def accepted_preconditioners_def)
  obtain o2 where o2:
    "Options_ctor (options_with ''sparse'' ''SUNLinSol_KLU'' ''none'') = Inr o2"
    "linear_solver o2 = ''SUNLinSol_KLU''"
    by (simp add: Options_ctor_with Options_body_Inr members_with_strings
        compatibility_matrix_def krylov_solvers_def accepted_preconditioners_def)
  from iterative_flag_follows_linear_solver [OF o1(1)]
    iterative_flag_follows_linear_solver [OF o2(1)] o1 o2
  show ?thesis by (auto simp: krylov_solvers_def)
qed

subsection \<open>C9: numeric and boolean options are not validated\<close>

text \<open>
  C9. The constructor validates no numeric or boolean option. For every options
  dictionary on which construction succeeds, each of the 24 numeric and boolean members
  holds the value the dictionary supplies under its key, and replacing the value of any
  of these keys by any other value of the member's type leaves construction successful:
  no value of them makes construction fail.
\<close>

theorem numeric_options_stored_unvalidated:
  assumes "Options_ctor d = Inr opts"
  shows "d ''print_stats'' = Some (PyBool (print_stats opts)) \<and>
    d ''precon_half_bandwidth'' = Some (PyInt (precon_half_bandwidth opts)) \<and>
    d ''precon_half_bandwidth_keep'' = Some (PyInt (precon_half_bandwidth_keep opts)) \<and>
    d ''num_threads'' = Some (PyInt (num_threads opts)) \<and>
    d ''max_order_bdf'' = Some (PyInt (max_order_bdf opts)) \<and>
    d ''max_num_steps'' = Some (PyInt (max_num_steps opts)) \<and>
    d ''dt_init'' = Some (PyFloat (dt_init opts)) \<and>
    d ''dt_max'' = Some (PyFloat (dt_max opts)) \<and>
    d ''max_error_test_failures'' = Some (PyInt (max_error_test_failures opts)) \<and>
    d ''max_nonlinear_iterations'' = Some (PyInt (max_nonlinear_iterations opts)) \<and>
    d ''max_convergence_failures'' = Some (PyInt (max_convergence_failures opts)) \<and>
    d ''nonlinear_convergence_coefficient'' =
      Some (PyFloat (nonlinear_convergence_coefficient opts)) \<and>
    d ''nonlinear_convergence_coefficient_ic'' =
      Some (PyFloat (nonlinear_convergence_coefficient_ic opts)) \<and>
    d ''suppress_algebraic_error'' = Some (PySunBool (suppress_algebraic_error opts)) \<and>
    d ''max_num_steps_ic'' = Some (PyInt (max_num_steps_ic opts)) \<and>
    d ''max_number_jacobians_ic'' = Some (PyInt (max_number_jacobians_ic opts)) \<and>
    d ''max_number_iterations_ic'' = Some (PyInt (max_number_iterations_ic opts)) \<and>
    d ''max_linesearch_backtracks_ic'' = Some (PyInt (max_linesearch_backtracks_ic opts)) \<and>
    d ''linesearch_off_ic'' = Some (PySunBool (linesearch_off_ic opts)) \<and>
    d ''calc_ic'' = Some (PyBool (calc_ic opts)) \<and>
    d ''linsol_max_iterations'' = Some (PyInt (linsol_max_iterations opts)) \<and>
    d ''linear_solution_scaling'' = Some (PySunBool (linear_solution_scaling opts)) \<and>
    d ''epsilon_linear_tolerance'' = Some (PyFloat (epsilon_linear_tolerance opts)) \<and>
    d ''increment_factor'' = Some (PyFloat (increment_factor opts)) \<and>
    (\<forall>k v. numeric_option_value k v \<longrightarrow> (\<exists>opts'. Options_ctor (d(k \<mapsto> v)) = Inr opts'))"
proof -
  from assms obtain r where r: "read_options d = Inr r" and b: "Options_body r = Inr opts"
    by (auto simp: Options_ctor_Inr_iff)
  note D = read_options_Inr_D [OF r]
  from b have valid: "(jacobian r, linear_solver r) \<in> compatibility_matrix"
    "linear_solver r \<in> krylov_solvers \<longrightarrow> preconditioner r \<in> accepted_preconditioners"
    and opts: "opts = r\<lparr>using_sparse_matrix := (jacobian r = ''sparse'' \<or> jacobian r = ''matrix-free''),
           using_banded_matrix := (jacobian r = ''banded''),
           using_iterative_solver := (linear_solver r \<in> krylov_solvers),
           preconditioner :=
             (if linear_solver r \<in> krylov_solvers then preconditioner r else ''none'')\<rparr>"
    by (simp_all add: Options_body_Inr)
  have stored: "d ''print_stats'' = Some (PyBool (print_stats opts)) \<and>
    d ''precon_half_bandwidth'' = Some (PyInt (precon_half_bandwidth opts)) \<and>
    d ''precon_half_bandwidth_keep'' = Some (PyInt (precon_half_bandwidth_keep opts)) \<and>
    d ''num_threads'' = Some (PyInt (num_threads opts)) \<and>
    d ''max_order_bdf'' = Some (PyInt (max_order_bdf opts)) \<and>
    d ''max_num_steps'' = Some (PyInt (max_num_steps opts)) \<and>
    d ''dt_init'' = Some (PyFloat (dt_init opts)) \<and>
    d ''dt_max'' = Some (PyFloat (dt_max opts)) \<and>
    d ''max_error_test_failures'' = Some (PyInt (max_error_test_failures opts)) \<and>
    d ''max_nonlinear_iterations'' = Some (PyInt (max_nonlinear_iterations opts)) \<and>
    d ''max_convergence_failures'' = Some (PyInt (max_convergence_failures opts)) \<and>
    d ''nonlinear_convergence_coefficient'' =
      Some (PyFloat (nonlinear_convergence_coefficient opts)) \<and>
    d ''nonlinear_convergence_coefficient_ic'' =
      Some (PyFloat (nonlinear_convergence_coefficient_ic opts)) \<and>
    d ''suppress_algebraic_error'' = Some (PySunBool (suppress_algebraic_error opts)) \<and>
    d ''max_num_steps_ic'' = Some (PyInt (max_num_steps_ic opts)) \<and>
    d ''max_number_jacobians_ic'' = Some (PyInt (max_number_jacobians_ic opts)) \<and>
    d ''max_number_iterations_ic'' = Some (PyInt (max_number_iterations_ic opts)) \<and>
    d ''max_linesearch_backtracks_ic'' = Some (PyInt (max_linesearch_backtracks_ic opts)) \<and>
    d ''linesearch_off_ic'' = Some (PySunBool (linesearch_off_ic opts)) \<and>
    d ''calc_ic'' = Some (PyBool (calc_ic opts)) \<and>
    d ''linsol_max_iterations'' = Some (PyInt (linsol_max_iterations opts)) \<and>
    d ''linear_solution_scaling'' = Some (PySunBool (linear_solution_scaling opts)) \<and>
    d ''epsilon_linear_tolerance'' = Some (PyFloat (epsilon_linear_tolerance opts)) \<and>
    d ''increment_factor'' = Some (PyFloat (increment_factor opts))"
    using D by (simp add: opts)
  have any: "\<exists>opts'. Options_ctor (d(k \<mapsto> v)) = Inr opts'"
    if "numeric_option_value k v" for k v
  proof -
    from read_options_update [OF r that] obtain r' where
      r': "read_options (d(k \<mapsto> v)) = Inr r'" "jacobian r' = jacobian r"
      "linear_solver r' = linear_solver r" "preconditioner r' = preconditioner r"
      by blast
    from valid r'(2,3,4) have "\<exists>opts'. Options_body r' = Inr opts'"
      by (simp add: Options_body_Inr)
    then show ?thesis by (simp add: Options_ctor_read [OF r'(1)])
  qed
  from stored any show ?thesis by blast
qed

text \<open>A negative max_num_steps and a negative dt_max are accepted and stored.\<close>

theorem numeric_options_stored_unvalidated_witness:
  "sint (- 1 :: c_int) < 0 \<and>
   (\<exists>opts. Options_ctor ((options_with ''sparse'' ''SUNLinSol_KLU'' ''none'')
              (''max_num_steps'' \<mapsto> PyInt (- 1))) = Inr opts \<and>
      max_num_steps opts = - 1) \<and>
   (\<exists>opts. Options_ctor ((options_with ''sparse'' ''SUNLinSol_KLU'' ''none'')
              (''dt_max'' \<mapsto> PyFloat (- 1))) = Inr opts \<and>
      dt_max opts = - 1)"
proof -
  let ?d = "options_with ''sparse'' ''SUNLinSol_KLU'' ''none''"
  obtain opts0 where o: "Options_ctor ?d = Inr opts0"
    by (simp add: Options_ctor_with Options_body_Inr members_with_strings
        compatibility_matrix_def krylov_solvers_def)
  note any = numeric_options_stored_unvalidated [OF o]
  have "numeric_option_value ''max_num_steps'' (PyInt (- 1) :: (real, c_int) py_object)"
    by (simp add: int_options_def)
  with any obtain o1 where o1: "Options_ctor (?d(''max_num_steps'' \<mapsto> PyInt (- 1))) = Inr o1"
    by blast
  have s1: "max_num_steps o1 = - 1"
    using numeric_options_stored_unvalidated [OF o1] by simp
  have "numeric_option_value ''dt_max'' (PyFloat (- 1) :: (real, c_int) py_object)"
    by (simp add: double_options_def)
  with any obtain o2 where o2: "Options_ctor (?d(''dt_max'' \<mapsto> PyFloat (- 1))) = Inr o2"
    by blast
  have s2: "dt_max o2 = - 1"
    using numeric_options_stored_unvalidated [OF o2] by simp
  have "sint (- 1 :: c_int) < 0" by simp
  with o1 s1 o2 s2 show ?thesis by blast
qed

end
